theory Spec2Isabelle
  imports Main "HOL-Library.AList"
begin

section \<open>The envelope and error model (internal/jsonrpc/types.go)\<close>

text \<open>
  Go byte slices and Go strings are both sequences of bytes; an Isabelle \<open>char\<close> is a
  byte, so both are \<open>char list\<close>. Go's \<open>int\<close> is modelled by \<open>int\<close>: the listener never
  does arithmetic on a request id or an error code, it only compares and copies them.
  The type variable \<open>'a\<close> stands for the values a Go \<open>any\<close> can hold; \<open>None\<close> is the
  nil interface and the nil pointer.
\<close>

type_synonym bytes = "char list"

definition NotificationCancelRequest :: string where
  "NotificationCancelRequest = ''$/cancelRequest''"

record Request =
  req_ID :: int
  req_Method :: string
  req_Params :: bytes

type_synonym ErrorCode = int

definition ErrorCodeParseError :: ErrorCode where
  "ErrorCodeParseError = - 32700"

definition ErrorCodeInvalidRequest :: ErrorCode where
  "ErrorCodeInvalidRequest = - 32600"

definition ErrorCodeMethodNotFound :: ErrorCode where
  "ErrorCodeMethodNotFound = - 32601"

definition ErrorCodeInvalidParams :: ErrorCode where
  "ErrorCodeInvalidParams = - 32602"

definition ErrorCodeInternalError :: ErrorCode where
  "ErrorCodeInternalError = - 32603"

record 'a Error =
  Code :: ErrorCode
  Message :: string
  Data :: "'a option"

record 'a Response =
  rsp_ID :: int
  rsp_Result :: "'a option"
  rsp_Error :: "'a Error option"

text \<open>
  A value of Go's \<open>error\<close> interface, as far as this package looks at one: the two
  sentinels the read loop tests for, a pointer to a \<open>jsonrpc.Error\<close>, any other leaf
  error with its message, and an error that wraps another one (\<open>fmt.Errorf\<close> with
  \<open>%w\<close>, \<open>*net.OpError\<close>), which has a message of its own and an \<open>Unwrap\<close> result.
  Errors with several wrapped errors and errors with an \<open>As\<close> or \<open>Is\<close> method of their
  own are not modelled. A nil \<open>error\<close> is \<open>None\<close> of \<open>'a goerror option\<close>.
\<close>

datatype 'a goerror =
    io_EOF
  | net_ErrClosed
  | ErrorString string
  | RpcError "'a Error"
  | Wrapped string "'a goerror"

text \<open>Decimal formatting of an integer, as \<open>%d\<close> prints it.\<close>

fun nat_digits :: "nat \<Rightarrow> string" where
  "nat_digits n =
     (if n < 10 then [''0123456789'' ! n]
      else nat_digits (n div 10) @ [''0123456789'' ! (n mod 10)])"

declare nat_digits.simps [simp del]

definition fmt_d :: "int \<Rightarrow> string" where
  "fmt_d i = (if i < 0 then CHR ''-'' # nat_digits (nat (- i)) else nat_digits (nat i))"

text \<open>\<open>(*Error).Error\<close>: \<open>fmt.Sprintf("%s (code: %d)", err.Message, err.Code)\<close>.\<close>

definition Error_Error :: "'a Error \<Rightarrow> string" where
  "Error_Error err = Message err @ '' (code: '' @ fmt_d (Code err) @ '')''"

text \<open>The \<open>Error\<close> method of the \<open>error\<close> interface.\<close>

fun goerror_Error :: "'a goerror \<Rightarrow> string" where
  "goerror_Error io_EOF = ''EOF''"
| "goerror_Error net_ErrClosed = ''use of closed network connection''"
| "goerror_Error (ErrorString s) = s"
| "goerror_Error (RpcError e) = Error_Error e"
| "goerror_Error (Wrapped msg inner) = msg"

text \<open>\<open>fmt.Errorf(prefix + "%w", err)\<close>: the message ends with the wrapped error's.\<close>

definition fmt_Errorf_w :: "string \<Rightarrow> 'a goerror \<Rightarrow> 'a goerror" where
  "fmt_Errorf_w prefix err = Wrapped (prefix @ goerror_Error err) err"

text \<open>
  \<open>errors.Is(err, target)\<close> for a sentinel target, and \<open>errors.As(err, &e)\<close> for a
  target of type \<open>*Error\<close>: both walk the chain of wrapped errors from the outside in.
\<close>

fun errors_Is :: "'a goerror \<Rightarrow> 'a goerror \<Rightarrow> bool" where
  "errors_Is (Wrapped msg inner) target =
     (if Wrapped msg inner = target then True else errors_Is inner target)"
| "errors_Is err target = (err = target)"

fun errors_As :: "'a goerror \<Rightarrow> 'a Error option" where
  "errors_As (RpcError e) = Some e"
| "errors_As (Wrapped msg inner) = errors_As inner"
| "errors_As err = None"

text \<open>
  The arguments of the \<open>Errorf\<close> calls of this package, which are strings, errors and
  recovered panic values, and the two verbs they use, \<open>%s\<close> and \<open>%q\<close>. \<open>%q\<close> is
  \<open>strconv.Quote\<close>, a parameter \<open>quote\<close>. A format with fewer arguments than verbs does
  not occur in the package; the verb is then copied.
\<close>

datatype 'a fmtarg = ArgString string | ArgError "'a goerror"

fun fmt_verb :: "(string \<Rightarrow> string) \<Rightarrow> char \<Rightarrow> 'a fmtarg \<Rightarrow> string" where
  "fmt_verb quote v (ArgString s) = (if v = CHR ''q'' then quote s else s)"
| "fmt_verb quote v (ArgError e) =
     (if v = CHR ''q'' then quote (goerror_Error e) else goerror_Error e)"

fun fmt_Sprintf :: "(string \<Rightarrow> string) \<Rightarrow> string \<Rightarrow> 'a fmtarg list \<Rightarrow> string" where
  "fmt_Sprintf quote [] args = []"
| "fmt_Sprintf quote [c] args = [c]"
| "fmt_Sprintf quote (c # v # fs) [] = c # fmt_Sprintf quote (v # fs) []"
| "fmt_Sprintf quote (c # v # fs) (a # args) =
     (if c = CHR ''%'' then fmt_verb quote v a @ fmt_Sprintf quote fs args
      else c # fmt_Sprintf quote (v # fs) (a # args))"

text \<open>\<open>ErrorCode.Errorf\<close>: the format itself when there is no argument.\<close>

definition Errorf :: "(string \<Rightarrow> string) \<Rightarrow> ErrorCode \<Rightarrow> string \<Rightarrow> 'a fmtarg list \<Rightarrow> 'a Error" where
  "Errorf quote code format args =
     (let msg = (if length args > 0 then fmt_Sprintf quote format args else format)
      in \<lparr>Code = code, Message = msg, Data = None\<rparr>)"

definition NewError :: "ErrorCode \<Rightarrow> 'a goerror \<Rightarrow> 'a Error" where
  "NewError code err = \<lparr>Code = code, Message = goerror_Error err, Data = None\<rparr>"

definition AsResponse :: "'a Error \<Rightarrow> int \<Rightarrow> 'a Response" where
  "AsResponse err reqID = \<lparr>rsp_ID = reqID, rsp_Result = None, rsp_Error = Some err\<rparr>"

definition WrapError :: "'a goerror \<Rightarrow> 'a Error" where
  "WrapError err =
     (case errors_As err of
        Some e \<Rightarrow> e
      | None \<Rightarrow> NewError ErrorCodeInternalError err)"

section \<open>The typed handler adapter (internal/jsonrpc/handler.go)\<close>

text \<open>
  What a call of \<open>HandleRequest\<close> ends in: it returns its pair of a result and an
  error (both may be nil, both may be set), or it panics with a value. A handler
  reads whether its context is already canceled, reads the raw parameters and may change
  the state \<open>'w\<close> of the business logic. A handler that never returns is a task that is
  never completed in a schedule (see below).
\<close>

datatype 'a panicval = PanicString string | PanicError "'a goerror"

datatype 'a outcome = Return "'a option" "'a goerror option" | Panic "'a panicval"

type_synonym ('a, 'w) RequestHandler = "bool \<Rightarrow> bytes \<Rightarrow> 'w \<Rightarrow> 'a outcome \<times> 'w"

text \<open>
  \<open>typedHandler.HandleRequest\<close>. \<open>unmarshal\<close> is \<open>json.Unmarshal\<close> into the declared
  parameter type \<open>'req\<close>, \<open>handleFunc\<close> the business function.
\<close>

definition HandleRequest ::
  "(bytes \<Rightarrow> 'a goerror + 'req) \<Rightarrow> (bool \<Rightarrow> 'req \<Rightarrow> 'w \<Rightarrow> 'a outcome \<times> 'w)
     \<Rightarrow> ('a, 'w) RequestHandler" where
  "HandleRequest unmarshal handleFunc ctx params w =
     (case unmarshal params of
        Inl err \<Rightarrow> (Return None (Some (RpcError (NewError ErrorCodeParseError err))), w)
      | Inr req \<Rightarrow> handleFunc ctx req w)"

text \<open>
  A business function that also counts its calls in the first component of the state:
  the means to say how often the adapter has invoked it.
\<close>

definition counting ::
  "(bool \<Rightarrow> 'req \<Rightarrow> 'w \<Rightarrow> 'a outcome \<times> 'w) \<Rightarrow> bool \<Rightarrow> 'req \<Rightarrow> nat \<times> 'w \<Rightarrow> 'a outcome \<times> nat \<times> 'w" where
  "counting f ctx req s =
     (case f ctx req (snd s) of (r, w') \<Rightarrow> (r, (Suc (fst s), w')))"

section \<open>The cancellation registry\<close>

text \<open>
  \<open>requestCanceler\<close>: the \<open>sync.Map\<close> from a request id to its cancel function (the
  field \<open>m\<close>, here \<open>rc_m\<close>) is an association list with \<open>Store\<close> as \<open>AList.update\<close> and \<open>LoadAndDelete\<close> as \<open>map_of\<close>
  with \<open>AList.delete\<close>. A cancel function is the number of the context it cancels
  (\<open>context.WithCancel\<close> makes a new one at every call). Calling a cancel function is an
  effect: \<open>rc_called\<close> lists the cancel functions that the methods of the registry have
  called, in the order of the calls. \<open>Range\<close> visits the entries in an order Go leaves
  open; the model visits them in the order of the list.
\<close>

record requestCanceler =
  rc_m :: "(int \<times> nat) list"
  rc_called :: "nat list"

definition cancelRequest :: "int \<Rightarrow> requestCanceler \<Rightarrow> requestCanceler" where
  "cancelRequest reqID rc =
     (case map_of (rc_m rc) reqID of
        None \<Rightarrow> rc
      | Some cancelFn \<Rightarrow>
          rc\<lparr>rc_m := AList.delete reqID (rc_m rc), rc_called := rc_called rc @ [cancelFn]\<rparr>)"

definition finishRequest :: "int \<Rightarrow> requestCanceler \<Rightarrow> bool \<times> requestCanceler" where
  "finishRequest reqID rc =
     (case map_of (rc_m rc) reqID of
        None \<Rightarrow> (False, rc)
      | Some cancelFn \<Rightarrow> (True, rc\<lparr>rc_m := AList.delete reqID (rc_m rc)\<rparr>))"

definition cancelAll :: "requestCanceler \<Rightarrow> requestCanceler" where
  "cancelAll rc = rc\<lparr>rc_called := rc_called rc @ map snd (rc_m rc), rc_m := []\<rparr>"

definition addRequest :: "int \<Rightarrow> nat \<Rightarrow> requestCanceler \<Rightarrow> requestCanceler" where
  "addRequest reqID cancelFn rc = rc\<lparr>rc_m := AList.update reqID cancelFn (rc_m rc)\<rparr>"

text \<open>A sequence of calls of the registry's methods, run from left to right.\<close>

datatype rc_op = Register int nat | Cancel int | Finish int | CancelAll

fun rc_step :: "rc_op \<Rightarrow> requestCanceler \<Rightarrow> requestCanceler" where
  "rc_step (Register reqID cancelFn) rc = addRequest reqID cancelFn rc"
| "rc_step (Cancel reqID) rc = cancelRequest reqID rc"
| "rc_step (Finish reqID) rc = snd (finishRequest reqID rc)"
| "rc_step CancelAll rc = cancelAll rc"

fun rc_run :: "rc_op list \<Rightarrow> requestCanceler \<Rightarrow> requestCanceler" where
  "rc_run [] rc = rc"
| "rc_run (x # xs) rc = rc_run xs (rc_step x rc)"

fun registrations :: "nat \<Rightarrow> rc_op list \<Rightarrow> nat" where
  "registrations f [] = 0"
| "registrations f (Register reqID cancelFn # xs) =
     (if cancelFn = f then Suc (registrations f xs) else registrations f xs)"
| "registrations f (x # xs) = registrations f xs"

definition rc_empty :: requestCanceler where
  "rc_empty = \<lparr>rc_m = [], rc_called = []\<rparr>"

section \<open>The listener\<close>

text \<open>
  What the listener takes from outside the package: the JSON decoders and the encoder
  of \<open>encoding/json\<close> (\<open>json_Marshal\<close> gives the JSON text of a response, without the
  newline that \<open>Encoder.Encode\<close> adds), \<open>bytes.TrimSpace\<close>, \<open>strconv.Quote\<close>, and the
  table of handlers it was constructed with.
\<close>

record ('a, 'w) env =
  json_Unmarshal_Request :: "bytes \<Rightarrow> 'a goerror + Request"
  json_Unmarshal_int :: "bytes \<Rightarrow> 'a goerror + int"
  json_Marshal :: "'a Response \<Rightarrow> 'a goerror + bytes"
  bytes_TrimSpace :: "bytes \<Rightarrow> bytes"
  strconv_Quote :: "string \<Rightarrow> string"
  handlers :: "string \<Rightarrow> ('a, 'w) RequestHandler option"

text \<open>
  A goroutine started by \<open>handleRequest\<close> and not yet completed: the variables its
  closure captures.
\<close>

record ('a, 'w) task =
  t_req :: Request
  t_handler :: "('a, 'w) RequestHandler"
  t_cancelFn :: nat

text \<open>
  The state of one \<open>ListenStream\<close> call: the registry, the cancel functions that the
  tasks' own \<open>defer cancelFn()\<close> have called, the next fresh context, the running
  tasks, the state of the business logic, the bytes written to the connection, whether
  the connection is closed, whether the owning context is canceled, and whether the
  connection context's own cancel function has been called. Calls of \<open>log.Printf\<close> are
  left out.
\<close>

record ('a, 'w) listener =
  canceler :: requestCanceler
  released :: "nat list"
  nextCtx :: nat
  tasks :: "('a, 'w) task list"
  world :: 'w
  out :: bytes
  closed :: bool
  ctxDone :: bool
  connCanceled :: bool

definition connCtx_Err :: "('a, 'w) listener \<Rightarrow> bool" where
  "connCtx_Err st = (if ctxDone st then True else connCanceled st)"

definition reqCtx_Err :: "nat \<Rightarrow> ('a, 'w) listener \<Rightarrow> bool" where
  "reqCtx_Err c st =
     (if connCtx_Err st then True
      else if c \<in> set (rc_called (canceler st)) then True
      else c \<in> set (released st))"

text \<open>\<open>dst.Write\<close>: a closed connection takes no bytes and reports the failure.\<close>

definition conn_Write :: "bytes \<Rightarrow> ('a, 'w) listener \<Rightarrow> 'a goerror option \<times> ('a, 'w) listener" where
  "conn_Write b st =
     (if closed st then (Some net_ErrClosed, st)
      else (None, st\<lparr>out := out st @ b\<rparr>))"

text \<open>\<open>json.NewEncoder(buff).Encode(rsp)\<close>: appends the JSON text and a newline to the buffer.\<close>

definition Encoder_Encode ::
  "('a, 'w) env \<Rightarrow> bytes \<Rightarrow> 'a Response \<Rightarrow> 'a goerror + bytes" where
  "Encoder_Encode env buff rsp =
     (case json_Marshal env rsp of
        Inl err \<Rightarrow> Inl err
      | Inr js \<Rightarrow> Inr (buff @ js @ [CHR 0x0A]))"

text \<open>
  \<open>Listener.serveResponse\<close>. \<open>make([]byte, 1024)\<close> is a slice of 1024 zero bytes, and
  \<open>bytes.NewBuffer\<close> takes its argument as the initial contents of the buffer.
\<close>

definition serveResponse ::
  "('a, 'w) env \<Rightarrow> 'a Response \<Rightarrow> ('a, 'w) listener \<Rightarrow> 'a goerror option \<times> ('a, 'w) listener" where
  "serveResponse env rsp st =
     (let buff = replicate 1024 (CHR 0x00) in
      case Encoder_Encode env buff rsp of
        Inl err \<Rightarrow> (Some (fmt_Errorf_w ''failed to serialize response: '' err), st)
      | Inr b \<Rightarrow> conn_Write b st)"

definition serveError ::
  "('a, 'w) env \<Rightarrow> int \<Rightarrow> 'a Error \<Rightarrow> ('a, 'w) listener \<Rightarrow> 'a goerror option \<times> ('a, 'w) listener" where
  "serveError env reqID e st = serveResponse env (AsResponse e reqID) st"

definition handleNotification ::
  "('a, 'w) env \<Rightarrow> Request \<Rightarrow> ('a, 'w) listener \<Rightarrow> 'a goerror option \<times> ('a, 'w) listener" where
  "handleNotification env req st =
     (if req_Method req \<noteq> NotificationCancelRequest then
        (Some (RpcError (Errorf (strconv_Quote env) ErrorCodeMethodNotFound
                 ''unsupported notification %q'' [ArgString (req_Method req)])), st)
      else
        (case json_Unmarshal_int env (req_Params req) of
           Inl err \<Rightarrow>
             (Some (RpcError (Errorf (strconv_Quote env) ErrorCodeInvalidParams
                      ''cannot read params: %s'' [ArgError err])), st)
         | Inr reqID \<Rightarrow>
             (if reqID = 0 then
                (Some (RpcError (Errorf (strconv_Quote env) ErrorCodeInvalidParams
                         ''missing request ID'' [])), st)
              else (None, st\<lparr>canceler := cancelRequest reqID (canceler st)\<rparr>))))"

text \<open>
  \<open>Listener.handleRequest\<close>, up to the \<open>go\<close> statement: the goroutine is added to the
  running tasks.
\<close>

definition handleRequest ::
  "('a, 'w) env \<Rightarrow> bytes \<Rightarrow> ('a, 'w) listener \<Rightarrow> 'a goerror option \<times> ('a, 'w) listener" where
  "handleRequest env data st =
     (case json_Unmarshal_Request env data of
        Inl err \<Rightarrow> serveError env 0 (NewError ErrorCodeParseError err) st
      | Inr req \<Rightarrow>
          if req_ID req = 0 then
            (case handleNotification env req st of
               (Some err, st') \<Rightarrow> serveResponse env (AsResponse (WrapError err) 0) st'
             | (None, st') \<Rightarrow> (None, st'))
          else
            (case handlers env (req_Method req) of
               None \<Rightarrow>
                 serveResponse env
                   (AsResponse (Errorf (strconv_Quote env) ErrorCodeMethodNotFound
                      ''method not found: %q'' [ArgString (req_Method req)]) (req_ID req)) st
             | Some handler \<Rightarrow>
                 (let cancelFn = nextCtx st;
                      st1 = st\<lparr>nextCtx := Suc cancelFn,
                               canceler := addRequest (req_ID req) cancelFn (canceler st)\<rparr>
                  in (None, st1\<lparr>tasks := tasks st1 @
                        [\<lparr>t_req = req, t_handler = handler, t_cancelFn = cancelFn\<rparr>]\<rparr>))))"

text \<open>
  The deferred calls of the goroutine that run in both of its endings, in their order:
  \<open>l.canceler.finishRequest(req.ID)\<close>, then \<open>cancelFn()\<close>.
\<close>

definition task_defers :: "('a, 'w) task \<Rightarrow> ('a, 'w) listener \<Rightarrow> ('a, 'w) listener" where
  "task_defers t st =
     st\<lparr>canceler := snd (finishRequest (req_ID (t_req t)) (canceler st)),
        released := released st @ [t_cancelFn t]\<rparr>"

definition panic_arg :: "'a panicval \<Rightarrow> 'a fmtarg" where
  "panic_arg r = (case r of PanicString s \<Rightarrow> ArgString s | PanicError e \<Rightarrow> ArgError e)"

text \<open>
  The body of the goroutine, from the call of the handler to its end. The handler sees
  whether its context is canceled when the task completes. When the handler returns,
  the response is built and written unless the connection context is canceled, and the
  deferred calls follow; \<open>recover\<close> then gives nil. When the handler panics, the deferred
  calls run first and the recovering function writes the InternalError response.
\<close>

definition requestTask ::
  "('a, 'w) env \<Rightarrow> ('a, 'w) task \<Rightarrow> ('a, 'w) listener \<Rightarrow> ('a, 'w) listener" where
  "requestTask env t st =
     (case t_handler t (reqCtx_Err (t_cancelFn t) st) (req_Params (t_req t)) (world st) of
        (Return res err, w') \<Rightarrow>
          let st1 = st\<lparr>world := w'\<rparr>;
              rsp = \<lparr>rsp_ID = req_ID (t_req t), rsp_Result = res,
                     rsp_Error = map_option WrapError err\<rparr>;
              st2 = (if connCtx_Err st1 then st1 else snd (serveResponse env rsp st1))
          in task_defers t st2
      | (Panic r, w') \<Rightarrow>
          let st1 = task_defers t (st\<lparr>world := w'\<rparr>)
          in snd (serveError env (req_ID (t_req t))
                    (Errorf (strconv_Quote env) ErrorCodeInternalError ''%s'' [panic_arg r]) st1))"

text \<open>
  What happens while \<open>ListenStream\<close> runs, in the order in which it happens:
  \<open>reader.ReadBytes\<close> returns some data and an error or nil; the owning context is
  canceled; the goroutine that waits for that closes the connection; the running task
  with a given index completes. The read loop returns at a read error it evaluates; a
  schedule that ends before leaves the loop waiting in \<open>ReadBytes\<close>.
\<close>

datatype 'a event =
    Read bytes "'a goerror option"
  | OwnerCancel
  | WatcherClose
  | TaskDone nat

datatype 'a loop_result = Returned "'a goerror option" | Waiting

definition complete_task :: "('a, 'w) env \<Rightarrow> nat \<Rightarrow> ('a, 'w) listener \<Rightarrow> ('a, 'w) listener" where
  "complete_task env k st =
     (if k < length (tasks st)
      then requestTask env (tasks st ! k) (st\<lparr>tasks := take k (tasks st) @ drop (Suc k) (tasks st)\<rparr>)
      else st)"

text \<open>The check of the read error at the end of the loop body.\<close>

definition read_error_result :: "'a goerror \<Rightarrow> ('a, 'w) listener \<Rightarrow> 'a goerror option" where
  "read_error_result err st =
     (if errors_Is err io_EOF then None
      else if errors_Is err net_ErrClosed then None
      else if connCtx_Err st then None
      else Some (fmt_Errorf_w ''connection read failed: '' err))"

fun ListenStream_loop ::
  "('a, 'w) env \<Rightarrow> 'a event list \<Rightarrow> ('a, 'w) listener \<Rightarrow> 'a loop_result \<times> ('a, 'w) listener" where
  "ListenStream_loop env [] st = (Waiting, st)"
| "ListenStream_loop env (OwnerCancel # es) st = ListenStream_loop env es (st\<lparr>ctxDone := True\<rparr>)"
| "ListenStream_loop env (WatcherClose # es) st =
     ListenStream_loop env es (if ctxDone st then st\<lparr>closed := True\<rparr> else st)"
| "ListenStream_loop env (TaskDone k # es) st = ListenStream_loop env es (complete_task env k st)"
| "ListenStream_loop env (Read data err # es) st =
     (if length data > 0 \<and> length (bytes_TrimSpace env data) = 0 then
        ListenStream_loop env es st
      else
        let st' = (if length data > 0
                   then snd (handleRequest env (bytes_TrimSpace env data) st) else st)
        in case err of
             None \<Rightarrow> ListenStream_loop env es st'
           | Some e \<Rightarrow> (Returned (read_error_result e st'), st'))"

text \<open>
  \<open>Listener.ListenStream\<close>: when the loop returns, the deferred \<open>cancelAll\<close> and then the
  deferred cancel function of the connection context run.
\<close>

definition ListenStream ::
  "('a, 'w) env \<Rightarrow> 'a event list \<Rightarrow> ('a, 'w) listener \<Rightarrow> 'a loop_result \<times> ('a, 'w) listener" where
  "ListenStream env es st =
     (case ListenStream_loop env es st of
        (Returned r, st') \<Rightarrow>
          (Returned r, st'\<lparr>canceler := cancelAll (canceler st'), connCanceled := True\<rparr>)
      | (Waiting, st') \<Rightarrow> (Waiting, st'))"

section \<open>Measuring the registry\<close>

text \<open>
  How often a cancel function \<open>f\<close> has been called by the registry, plus how many entries
  of the registry still hold it: an upper bound of the calls \<open>f\<close> can get in the end.
\<close>

definition pending :: "nat \<Rightarrow> requestCanceler \<Rightarrow> nat" where
  "pending f rc = count_list (rc_called rc) f + count_list (map snd (rc_m rc)) f"

section \<open>A concrete environment\<close>

text \<open>
  Stand-ins for the library functions, for evaluating the listener on concrete lines:
  \<open>bytes.TrimSpace\<close> on ASCII white space, \<open>strconv.Quote\<close> on strings without special
  characters, an encoder for responses whose results are JSON texts already, decoders
  that know a handful of lines, and two handlers, one that answers and one that panics.
\<close>

definition ascii_space :: "char \<Rightarrow> bool" where
  "ascii_space c = (c \<in> set [CHR '' '', CHR 0x09, CHR 0x0A, CHR 0x0B, CHR 0x0C, CHR 0x0D])"

definition ascii_TrimSpace :: "bytes \<Rightarrow> bytes" where
  "ascii_TrimSpace s = rev (dropWhile ascii_space (rev (dropWhile ascii_space s)))"

definition ex_Quote :: "string \<Rightarrow> string" where
  "ex_Quote s = CHR 0x22 # s @ [CHR 0x22]"

definition ex_escape :: "string \<Rightarrow> string" where
  "ex_escape s = concat (map (\<lambda>c. if c = CHR 0x22 then [CHR 0x5C, CHR 0x22]
                                  else if c = CHR 0x5C then [CHR 0x5C, CHR 0x5C] else [c]) s)"

definition ex_Marshal :: "bytes Response \<Rightarrow> bytes goerror + bytes" where
  \<open>ex_Marshal rsp =
     Inr (''{"id":'' @ fmt_d (rsp_ID rsp)
          @ (case rsp_Result rsp of None \<Rightarrow> [] | Some r \<Rightarrow> '',"result":'' @ r)
          @ (case rsp_Error rsp of None \<Rightarrow> []
             | Some e \<Rightarrow> '',"error":{"code":'' @ fmt_d (Code e) @ '',"message":"''
                          @ ex_escape (Message e) @ ''"}'')
          @ ''}'')\<close>

definition ex_Unmarshal_Request :: "bytes \<Rightarrow> bytes goerror + Request" where
  \<open>ex_Unmarshal_Request data =
     (if data = ''{"id":1,"method":"ping","params":null}''
        then Inr \<lparr>req_ID = 1, req_Method = ''ping'', req_Params = ''null''\<rparr>
      else if data = ''{"id":1,"method":"boom"}''
        then Inr \<lparr>req_ID = 1, req_Method = ''boom'', req_Params = []\<rparr>
      else if data = ''{"id":0,"method":"$/cancelRequest","params":1}''
        then Inr \<lparr>req_ID = 0, req_Method = ''$/cancelRequest'', req_Params = ''1''\<rparr>
      else if data = ''{"id":0,"method":"$/cancelRequest","params":0}''
        then Inr \<lparr>req_ID = 0, req_Method = ''$/cancelRequest'', req_Params = ''0''\<rparr>
      else if data = ''{"id":0,"method":"hello"}''
        then Inr \<lparr>req_ID = 0, req_Method = ''hello'', req_Params = []\<rparr>
      else if data = ''{"id":0,"method":"$/cancelRequest"}''
        then Inr \<lparr>req_ID = 0, req_Method = ''$/cancelRequest'', req_Params = []\<rparr>
      else Inl (ErrorString ''unexpected end of JSON input''))\<close>

definition ex_Unmarshal_int :: "bytes \<Rightarrow> bytes goerror + int" where
  "ex_Unmarshal_int data =
     (if data = ''1'' then Inr 1
      else if data = ''0'' then Inr 0
      else Inl (ErrorString ''unexpected end of JSON input''))"

definition ex_handlers :: "string \<Rightarrow> (bytes, nat) RequestHandler option" where
  \<open>ex_handlers method =
     (if method = ''ping'' then Some (\<lambda>ctx params w. (Return (Some ''{"pong":true}'') None, Suc w))
      else if method = ''boom'' then Some (\<lambda>ctx params w. (Panic (PanicString ''boom''), Suc w))
      else None)\<close>

definition ex_env :: "(bytes, nat) env" where
  "ex_env = \<lparr>json_Unmarshal_Request = ex_Unmarshal_Request,
             json_Unmarshal_int = ex_Unmarshal_int,
             json_Marshal = ex_Marshal,
             bytes_TrimSpace = ascii_TrimSpace,
             strconv_Quote = ex_Quote,
             handlers = ex_handlers\<rparr>"

definition listener0 :: "(bytes, nat) listener" where
  "listener0 = \<lparr>canceler = rc_empty, released = [], nextCtx = 0, tasks = [], world = 0,
                 out = [], closed = False, ctxDone = False, connCanceled = False\<rparr>"

section \<open>Equations for evaluating the definitions\<close>

lemmas ex_defs = ex_env_def ex_Unmarshal_Request_def ex_Unmarshal_int_def ex_Marshal_def
  ex_handlers_def ex_Quote_def ex_escape_def ascii_TrimSpace_def ascii_space_def listener0_def rc_empty_def

lemmas rc_defs = addRequest_def cancelRequest_def finishRequest_def cancelAll_def

lemmas listener_defs = handleRequest_def handleNotification_def complete_task_def requestTask_def
  task_defers_def serveError_def serveResponse_def Encoder_Encode_def conn_Write_def
  connCtx_Err_def reqCtx_Err_def read_error_result_def panic_arg_def Errorf_def NewError_def
  AsResponse_def WrapError_def fmt_Errorf_w_def Error_Error_def fmt_d_def nat_digits.simps
  NotificationCancelRequest_def ErrorCodeParseError_def ErrorCodeInvalidRequest_def
  ErrorCodeMethodNotFound_def ErrorCodeInvalidParams_def ErrorCodeInternalError_def Let_def

section \<open>The cancellation registry: properties\<close>

lemma count_delete_le:
  "count_list (map snd (AList.delete k xs)) f \<le> count_list (map snd xs) f"
  by (induction xs) (auto simp: AList.delete_eq)

lemma count_delete_found:
  "map_of xs k = Some f \<Longrightarrow>
   Suc (count_list (map snd (AList.delete k xs)) f) \<le> count_list (map snd xs) f"
proof (induction xs)
  case Nil
  then show ?case by simp
next
  case (Cons p ps)
  show ?case
  proof (cases "fst p = k")
    case True
    with Cons.prems have "snd p = f" by (cases p) simp
    with True show ?thesis
      using count_delete_le [of k ps f] by (cases p) (simp add: AList.delete_eq)
  next
    case False
    with Cons.prems have "map_of ps k = Some f" by (cases p) auto
    from Cons.IH [OF this] False show ?thesis by (cases p) (auto simp: AList.delete_eq)
  qed
qed

lemma count_update_le:
  "count_list (map snd (AList.update k v xs)) f
     \<le> count_list (map snd xs) f + (if v = f then 1 else 0)"
  by (induction xs) (auto)

lemma count_update_replaced:
  "map_of xs k = Some f \<Longrightarrow> v \<noteq> f \<Longrightarrow>
   Suc (count_list (map snd (AList.update k v xs)) f) = count_list (map snd xs) f"
  by (induction xs) (auto split: if_splits)


lemma rc_step_pending:
  "pending f (rc_step x rc) \<le> pending f rc + registrations f [x]"
proof (cases x)
  case (Register reqID cancelFn)
  then show ?thesis
    using count_update_le [of reqID cancelFn "rc_m rc" f]
    by (auto simp: pending_def addRequest_def)
next
  case (Cancel reqID)
  then show ?thesis
    using count_delete_found [of "rc_m rc" reqID f] count_delete_le [of reqID "rc_m rc" f]
    by (auto simp: pending_def cancelRequest_def split: option.splits)
next
  case (Finish reqID)
  then show ?thesis
    using count_delete_le [of reqID "rc_m rc" f]
    by (auto simp: pending_def finishRequest_def split: option.splits)
next
  case CancelAll
  then show ?thesis by (simp add: pending_def cancelAll_def)
qed

lemma registrations_Cons: "registrations f (x # xs) = registrations f [x] + registrations f xs"
  by (cases x) auto

lemma rc_run_pending:
  "pending f (rc_run ops rc) \<le> pending f rc + registrations f ops"
proof (induction ops arbitrary: rc)
  case Nil
  then show ?case by simp
next
  case (Cons x xs)
  have "pending f (rc_run (x # xs) rc) \<le> pending f (rc_step x rc) + registrations f xs"
    using Cons.IH [of "rc_step x rc"] by simp
  also have "\<dots> \<le> pending f rc + registrations f [x] + registrations f xs"
    using rc_step_pending [of f x rc] by simp
  finally show ?case using registrations_Cons [of f x xs] by simp
qed

lemma rc_step_called_mono: "count_list (rc_called rc) f \<le> count_list (rc_called (rc_step x rc)) f"
  by (cases x) (auto simp: addRequest_def cancelRequest_def finishRequest_def cancelAll_def split: option.splits)

lemma rc_run_called_mono: "count_list (rc_called rc) f \<le> count_list (rc_called (rc_run ops rc)) f"
proof (induction ops arbitrary: rc)
  case Nil
  then show ?case by simp
next
  case (Cons x xs)
  show ?case using Cons.IH [of "rc_step x rc"] rc_step_called_mono [of rc f x] by simp
qed


lemma cancelRequest_absent: "map_of (rc_m rc) reqID = None \<Longrightarrow> cancelRequest reqID rc = rc"
  by (simp add: cancelRequest_def)

lemma map_of_delete_same: "map_of (AList.delete k xs) k = None"
  by (simp add: AList.delete_conv')

lemma finishRequest_removes: "map_of (rc_m (snd (finishRequest reqID rc))) reqID = None"
  by (simp add: finishRequest_def map_of_delete_same split: option.splits)

lemma finishRequest_called: "rc_called (snd (finishRequest reqID rc)) = rc_called rc"
  by (simp add: finishRequest_def split: option.splits)

lemma cancelRequest_removes: "map_of (rc_m (cancelRequest reqID rc)) reqID = None"
  by (simp add: cancelRequest_def map_of_delete_same split: option.splits)

text \<open>
  Claim C3. The registry calls the cancel function of a request id at most once:
  \<open>cancelRequest\<close> for an id without an entry changes nothing; after \<open>addRequest\<close> and
  \<open>finishRequest\<close> for an id, \<open>cancelRequest\<close> for it changes nothing and calls nothing;
  a second \<open>cancelRequest\<close> for an id changes nothing; and in every sequence of calls of
  the registry's methods, from the empty registry, a cancel function that is registered
  at most once is called at most once.
\<close>

theorem cancel_invokes_at_most_once:
  "(map_of (rc_m rc) reqID = None \<longrightarrow> cancelRequest reqID rc = rc)
   \<and> cancelRequest reqID (snd (finishRequest reqID (addRequest reqID f rc)))
       = snd (finishRequest reqID (addRequest reqID f rc))
   \<and> rc_called (cancelRequest reqID (snd (finishRequest reqID (addRequest reqID f rc))))
       = rc_called rc
   \<and> cancelRequest reqID (cancelRequest reqID rc) = cancelRequest reqID rc
   \<and> (registrations f ops \<le> 1 \<longrightarrow> count_list (rc_called (rc_run ops rc_empty)) f \<le> 1)"
proof (intro conjI impI)
  assume "map_of (rc_m rc) reqID = None"
  then show "cancelRequest reqID rc = rc" by (rule cancelRequest_absent)
next
  let ?rc = "snd (finishRequest reqID (addRequest reqID f rc))"
  have gone: "map_of (rc_m ?rc) reqID = None" by (rule finishRequest_removes)
  then show noop: "cancelRequest reqID ?rc = ?rc" by (rule cancelRequest_absent)
  have "rc_called ?rc = rc_called rc"
    by (simp add: finishRequest_called addRequest_def)
  with noop show "rc_called (cancelRequest reqID ?rc) = rc_called rc" by simp
next
  show "cancelRequest reqID (cancelRequest reqID rc) = cancelRequest reqID rc"
    by (rule cancelRequest_absent) (rule cancelRequest_removes)
next
  assume once: "registrations f ops \<le> 1"
  have "count_list (rc_called (rc_run ops rc_empty)) f \<le> pending f (rc_run ops rc_empty)"
    by (simp add: pending_def)
  also have "\<dots> \<le> pending f rc_empty + registrations f ops" by (rule rc_run_pending)
  also have "\<dots> \<le> 1" using once by (simp add: pending_def rc_empty_def)
  finally show "count_list (rc_called (rc_run ops rc_empty)) f \<le> 1" .
qed

theorem cancel_invokes_at_most_once_witness:
  "map_of (rc_m rc_empty) 5 = None
   \<and> cancelRequest 5 rc_empty = rc_empty
   \<and> rc_called (cancelRequest 5 (snd (finishRequest 5 (addRequest 5 7 rc_empty)))) = []
   \<and> registrations 7 [Register 5 7, Cancel 5, Cancel 5, Register 5 8, CancelAll] = 1
   \<and> rc_called (rc_run [Register 5 7, Cancel 5, Cancel 5, Register 5 8, CancelAll] rc_empty) = [7, 8]
   \<and> count_list (rc_called (rc_run [Register 5 7, Cancel 5, Cancel 5, Register 5 8, CancelAll] rc_empty)) 7 \<le> 1"
  using cancel_invokes_at_most_once [of rc_empty 5 7 "[Register 5 7, Cancel 5, Cancel 5, Register 5 8, CancelAll]"]
  by (simp add: rc_empty_def cancelRequest_def finishRequest_def addRequest_def cancelAll_def)


section \<open>The listener: what each step leaves unchanged\<close>

lemma serveResponse_open:
  "json_Marshal env rsp = Inr js \<Longrightarrow> \<not> closed st \<Longrightarrow>
   serveResponse env rsp st =
     (None, st\<lparr>out := out st @ replicate 1024 (CHR 0x00) @ js @ [CHR 0x0A]\<rparr>)"
  by (simp add: serveResponse_def Encoder_Encode_def conn_Write_def)

lemma serveResponse_closed: "closed st \<Longrightarrow> snd (serveResponse env rsp st) = st"
  by (simp add: serveResponse_def Encoder_Encode_def conn_Write_def split: sum.splits)

lemma serveResponse_frame:
  "\<exists>b. snd (serveResponse env rsp st) = st\<lparr>out := out st @ b\<rparr>"
proof (cases "json_Marshal env rsp")
  case (Inl err)
  then have "snd (serveResponse env rsp st) = st\<lparr>out := out st @ []\<rparr>"
    by (simp add: serveResponse_def Encoder_Encode_def)
  then show ?thesis by blast
next
  case (Inr js)
  show ?thesis
  proof (cases "closed st")
    case True
    then have "snd (serveResponse env rsp st) = st\<lparr>out := out st @ []\<rparr>"
      by (simp add: serveResponse_closed)
    then show ?thesis by blast
  next
    case False
    with Inr show ?thesis by (auto simp: serveResponse_open)
  qed
qed

lemma serveResponse_keeps:
  "canceler (snd (serveResponse env rsp st)) = canceler st"
  "released (snd (serveResponse env rsp st)) = released st"
  "nextCtx (snd (serveResponse env rsp st)) = nextCtx st"
  "tasks (snd (serveResponse env rsp st)) = tasks st"
  "world (snd (serveResponse env rsp st)) = world st"
  "closed (snd (serveResponse env rsp st)) = closed st"
  "ctxDone (snd (serveResponse env rsp st)) = ctxDone st"
  "connCanceled (snd (serveResponse env rsp st)) = connCanceled st"
  using serveResponse_frame [of env rsp st] by auto

lemma handleRequest_spawn:
  "json_Unmarshal_Request env d = Inr r \<Longrightarrow> req_ID r \<noteq> 0 \<Longrightarrow>
   handlers env (req_Method r) = Some h \<Longrightarrow>
   handleRequest env d st =
     (None, st\<lparr>nextCtx := Suc (nextCtx st),
               canceler := addRequest (req_ID r) (nextCtx st) (canceler st),
               tasks := tasks st @ [\<lparr>t_req = r, t_handler = h, t_cancelFn = nextCtx st\<rparr>]\<rparr>)"
  by (simp add: handleRequest_def Let_def)

lemma task_defers_keeps:
  "canceler (task_defers t st) = snd (finishRequest (req_ID (t_req t)) (canceler st))"
  "tasks (task_defers t st) = tasks st"
  "out (task_defers t st) = out st"
  "closed (task_defers t st) = closed st"
  "ctxDone (task_defers t st) = ctxDone st"
  "connCanceled (task_defers t st) = connCanceled st"
  "world (task_defers t st) = world st"
  by (simp_all add: task_defers_def)

lemma requestTask_canceler:
  "canceler (requestTask env t st) = snd (finishRequest (req_ID (t_req t)) (canceler st))"
  by (simp add: requestTask_def Let_def serveError_def serveResponse_keeps task_defers_keeps
      split: prod.splits outcome.splits)

lemma requestTask_tasks: "tasks (requestTask env t st) = tasks st"
  by (simp add: requestTask_def Let_def serveError_def serveResponse_keeps task_defers_keeps
      split: prod.splits outcome.splits)

lemma map_of_update_same: "map_of (AList.update k v xs) k = Some v"
  by (simp add: AList.update_conv')

section \<open>Requests that share an id\<close>

lemma rc_run_untouched:
  assumes "registrations f ops = 0" and "count_list (map snd (rc_m rc)) f = 0"
  shows "count_list (rc_called (rc_run ops rc)) f = count_list (rc_called rc) f"
proof (rule antisym)
  have "count_list (rc_called (rc_run ops rc)) f \<le> pending f (rc_run ops rc)"
    by (simp add: pending_def)
  also have "\<dots> \<le> pending f rc + registrations f ops" by (rule rc_run_pending)
  also have "\<dots> = count_list (rc_called rc) f" using assms by (simp add: pending_def)
  finally show "count_list (rc_called (rc_run ops rc)) f \<le> count_list (rc_called rc) f" .
next
  show "count_list (rc_called rc) f \<le> count_list (rc_called (rc_run ops rc)) f"
    by (rule rc_run_called_mono)
qed

text \<open>
  Claim C10. \<open>addRequest\<close> for an id that has an entry replaces the entry and calls
  nothing; when the replaced cancel function was held by that entry only and is not
  registered again, no later call of the registry's methods calls it. One
  \<open>finishRequest\<close> after two \<open>addRequest\<close> for the same id finds an entry and leaves
  none. In the listener: after two requests with the same id, both for registered
  methods, the registry holds the cancel function of the second; when the task of the
  first completes, its deferred \<open>finishRequest\<close> removes that entry while the second
  task is still running, so that a later \<open>cancelRequest\<close> for the id does nothing;
  when the task of the second completes first, the registry has no entry for the id
  either while the first task is still running.
\<close>

theorem register_replaces_entry:
  "(map_of (rc_m rc) reqID = Some f1 \<longrightarrow>
      map_of (rc_m (addRequest reqID f2 rc)) reqID = Some f2
      \<and> rc_called (addRequest reqID f2 rc) = rc_called rc)
   \<and> (map_of (rc_m rc) reqID = Some f1 \<and> count_list (map snd (rc_m rc)) f1 = 1
        \<and> f2 \<noteq> f1 \<and> registrations f1 ops = 0 \<longrightarrow>
      count_list (rc_called (rc_run ops (addRequest reqID f2 rc))) f1
        = count_list (rc_called rc) f1)
   \<and> fst (finishRequest reqID (addRequest reqID f2 (addRequest reqID f1 rc)))
   \<and> map_of (rc_m (snd (finishRequest reqID (addRequest reqID f2 (addRequest reqID f1 rc))))) reqID = None
   \<and> rc_called (snd (finishRequest reqID (addRequest reqID f2 (addRequest reqID f1 rc)))) = rc_called rc
   \<and> (json_Unmarshal_Request env d1 = Inr r1 \<and> json_Unmarshal_Request env d2 = Inr r2
        \<and> req_ID r1 \<noteq> 0 \<and> req_ID r2 = req_ID r1
        \<and> handlers env (req_Method r1) = Some h1 \<and> handlers env (req_Method r2) = Some h2 \<longrightarrow>
      (let st2 = snd (handleRequest env d2 (snd (handleRequest env d1 st)));
           st3 = complete_task env (length (tasks st)) st2
       in map_of (rc_m (canceler st2)) (req_ID r1) = Some (Suc (nextCtx st))
          \<and> tasks st2 = tasks st @ [\<lparr>t_req = r1, t_handler = h1, t_cancelFn = nextCtx st\<rparr>,
                                     \<lparr>t_req = r2, t_handler = h2, t_cancelFn = Suc (nextCtx st)\<rparr>]
          \<and> rc_called (canceler st2) = rc_called (canceler st)
          \<and> map_of (rc_m (canceler st3)) (req_ID r1) = None
          \<and> tasks st3 = tasks st @ [\<lparr>t_req = r2, t_handler = h2, t_cancelFn = Suc (nextCtx st)\<rparr>]
          \<and> rc_called (canceler st3) = rc_called (canceler st)
          \<and> cancelRequest (req_ID r1) (canceler st3) = canceler st3
          \<and> map_of (rc_m (canceler (complete_task env (Suc (length (tasks st))) st2))) (req_ID r1)
              = None
          \<and> tasks (complete_task env (Suc (length (tasks st))) st2)
              = tasks st @ [\<lparr>t_req = r1, t_handler = h1, t_cancelFn = nextCtx st\<rparr>]
          \<and> rc_called (canceler (complete_task env (Suc (length (tasks st))) st2))
              = rc_called (canceler st)))"
proof (intro conjI impI)
  assume "map_of (rc_m rc) reqID = Some f1"
  show "map_of (rc_m (addRequest reqID f2 rc)) reqID = Some f2"
    by (simp add: addRequest_def map_of_update_same)
  show "rc_called (addRequest reqID f2 rc) = rc_called rc"
    by (simp add: addRequest_def)
next
  assume a: "map_of (rc_m rc) reqID = Some f1 \<and> count_list (map snd (rc_m rc)) f1 = 1
        \<and> f2 \<noteq> f1 \<and> registrations f1 ops = 0"
  then have "Suc (count_list (map snd (AList.update reqID f2 (rc_m rc))) f1) = 1"
    using count_update_replaced [of "rc_m rc" reqID f1 f2] by simp
  then have "count_list (map snd (rc_m (addRequest reqID f2 rc))) f1 = 0"
    by (simp add: addRequest_def)
  with a have "count_list (rc_called (rc_run ops (addRequest reqID f2 rc))) f1
                = count_list (rc_called (addRequest reqID f2 rc)) f1"
    by (intro rc_run_untouched) simp_all
  then show "count_list (rc_called (rc_run ops (addRequest reqID f2 rc))) f1
              = count_list (rc_called rc) f1"
    by (simp add: addRequest_def)
next
  show "fst (finishRequest reqID (addRequest reqID f2 (addRequest reqID f1 rc)))"
    by (simp add: finishRequest_def addRequest_def map_of_update_same)
  show "map_of (rc_m (snd (finishRequest reqID (addRequest reqID f2 (addRequest reqID f1 rc))))) reqID = None"
    by (rule finishRequest_removes)
  show "rc_called (snd (finishRequest reqID (addRequest reqID f2 (addRequest reqID f1 rc)))) = rc_called rc"
    by (simp add: finishRequest_called addRequest_def)
next
  assume a: "json_Unmarshal_Request env d1 = Inr r1 \<and> json_Unmarshal_Request env d2 = Inr r2
        \<and> req_ID r1 \<noteq> 0 \<and> req_ID r2 = req_ID r1
        \<and> handlers env (req_Method r1) = Some h1 \<and> handlers env (req_Method r2) = Some h2"
  define t1 where "t1 = \<lparr>t_req = r1, t_handler = h1, t_cancelFn = nextCtx st\<rparr>"
  define t2 where "t2 = \<lparr>t_req = r2, t_handler = h2, t_cancelFn = Suc (nextCtx st)\<rparr>"
  define st1 where "st1 = snd (handleRequest env d1 st)"
  define st2 where "st2 = snd (handleRequest env d2 st1)"
  define st3 where "st3 = complete_task env (length (tasks st)) st2"
  have s1: "st1 = st\<lparr>nextCtx := Suc (nextCtx st),
               canceler := addRequest (req_ID r1) (nextCtx st) (canceler st),
               tasks := tasks st @ [t1]\<rparr>"
    using a by (simp add: st1_def t1_def handleRequest_spawn)
  have s2: "st2 = st1\<lparr>nextCtx := Suc (nextCtx st1),
               canceler := addRequest (req_ID r1) (nextCtx st1) (canceler st1),
               tasks := tasks st1 @ [\<lparr>t_req = r2, t_handler = h2, t_cancelFn = nextCtx st1\<rparr>]\<rparr>"
    using a handleRequest_spawn [of env d2 r2 h2 st1] by (simp add: st2_def)
  have tasks2: "tasks st2 = tasks st @ [t1, t2]"
    by (simp add: s2 s1 t2_def)
  have canc2: "canceler st2
      = addRequest (req_ID r1) (Suc (nextCtx st)) (addRequest (req_ID r1) (nextCtx st) (canceler st))"
    by (simp add: s2 s1)
  have s3: "st3 = requestTask env t1 (st2\<lparr>tasks := tasks st @ [t2]\<rparr>)"
    by (simp add: st3_def complete_task_def tasks2 nth_append)
  have canc3: "canceler st3 = snd (finishRequest (req_ID r1) (canceler st2))"
    by (simp add: s3 requestTask_canceler t1_def)
  have gone: "map_of (rc_m (canceler st3)) (req_ID r1) = None"
    by (simp add: canc3 finishRequest_removes)
  define st4 where "st4 = complete_task env (Suc (length (tasks st))) st2"
  have s4: "st4 = requestTask env t2 (st2\<lparr>tasks := tasks st @ [t1]\<rparr>)"
    by (simp add: st4_def complete_task_def tasks2 nth_append)
  have canc4: "canceler st4 = snd (finishRequest (req_ID r1) (canceler st2))"
    using a by (simp add: s4 requestTask_canceler t2_def)
  have "map_of (rc_m (canceler st2)) (req_ID r1) = Some (Suc (nextCtx st))
          \<and> tasks st2 = tasks st @ [t1, t2]
          \<and> rc_called (canceler st2) = rc_called (canceler st)
          \<and> map_of (rc_m (canceler st3)) (req_ID r1) = None
          \<and> tasks st3 = tasks st @ [t2]
          \<and> rc_called (canceler st3) = rc_called (canceler st)
          \<and> cancelRequest (req_ID r1) (canceler st3) = canceler st3
          \<and> map_of (rc_m (canceler st4)) (req_ID r1) = None
          \<and> tasks st4 = tasks st @ [t1]
          \<and> rc_called (canceler st4) = rc_called (canceler st)"
  proof (intro conjI)
    show "map_of (rc_m (canceler st4)) (req_ID r1) = None"
      by (simp add: canc4 finishRequest_removes)
    show "tasks st4 = tasks st @ [t1]" by (simp add: s4 requestTask_tasks)
    show "rc_called (canceler st4) = rc_called (canceler st)"
      by (simp add: canc4 finishRequest_called canc2 addRequest_def)
  next
    show "map_of (rc_m (canceler st2)) (req_ID r1) = Some (Suc (nextCtx st))"
      by (simp add: canc2 addRequest_def map_of_update_same)
    show "tasks st2 = tasks st @ [t1, t2]" by (rule tasks2)
    show "rc_called (canceler st2) = rc_called (canceler st)"
      by (simp add: canc2 addRequest_def)
    show "map_of (rc_m (canceler st3)) (req_ID r1) = None" by (rule gone)
    show "tasks st3 = tasks st @ [t2]" by (simp add: s3 requestTask_tasks)
    show "rc_called (canceler st3) = rc_called (canceler st)"
      by (simp add: canc3 finishRequest_called canc2 addRequest_def)
    show "cancelRequest (req_ID r1) (canceler st3) = canceler st3"
      using gone by (rule cancelRequest_absent)
  qed
  then show "let st2 = snd (handleRequest env d2 (snd (handleRequest env d1 st)));
           st3 = complete_task env (length (tasks st)) st2
       in map_of (rc_m (canceler st2)) (req_ID r1) = Some (Suc (nextCtx st))
          \<and> tasks st2 = tasks st @ [\<lparr>t_req = r1, t_handler = h1, t_cancelFn = nextCtx st\<rparr>,
                                     \<lparr>t_req = r2, t_handler = h2, t_cancelFn = Suc (nextCtx st)\<rparr>]
          \<and> rc_called (canceler st2) = rc_called (canceler st)
          \<and> map_of (rc_m (canceler st3)) (req_ID r1) = None
          \<and> tasks st3 = tasks st @ [\<lparr>t_req = r2, t_handler = h2, t_cancelFn = Suc (nextCtx st)\<rparr>]
          \<and> rc_called (canceler st3) = rc_called (canceler st)
          \<and> cancelRequest (req_ID r1) (canceler st3) = canceler st3
          \<and> map_of (rc_m (canceler (complete_task env (Suc (length (tasks st))) st2))) (req_ID r1)
              = None
          \<and> tasks (complete_task env (Suc (length (tasks st))) st2)
              = tasks st @ [\<lparr>t_req = r1, t_handler = h1, t_cancelFn = nextCtx st\<rparr>]
          \<and> rc_called (canceler (complete_task env (Suc (length (tasks st))) st2))
              = rc_called (canceler st)"
    unfolding Let_def st4_def st3_def st2_def st1_def t1_def t2_def by simp
qed

theorem register_replaces_entry_witness:
  \<open>map_of (rc_m (addRequest 5 7 rc_empty)) 5 = Some 7
   \<and> map_of (rc_m (addRequest 5 8 (addRequest 5 7 rc_empty))) 5 = Some 8
   \<and> rc_called (rc_run [Cancel 5, CancelAll] (addRequest 5 8 (addRequest 5 7 rc_empty))) = [8]
   \<and> count_list (rc_called (rc_run [Cancel 5, CancelAll] (addRequest 5 8 (addRequest 5 7 rc_empty)))) 7 = 0
   \<and> json_Unmarshal_Request ex_env ''{"id":1,"method":"ping","params":null}''
       = Inr \<lparr>req_ID = 1, req_Method = ''ping'', req_Params = ''null''\<rparr>
   \<and> (let st2 = snd (handleRequest ex_env ''{"id":1,"method":"ping","params":null}''
                  (snd (handleRequest ex_env ''{"id":1,"method":"ping","params":null}'' listener0)));
           st3 = complete_task ex_env 0 st2
       in canceler st2 = \<lparr>rc_m = [(1, 1)], rc_called = []\<rparr>
          \<and> map t_cancelFn (tasks st2) = [0, 1]
          \<and> canceler st3 = \<lparr>rc_m = [], rc_called = []\<rparr>
          \<and> map t_cancelFn (tasks st3) = [1]
          \<and> cancelRequest 1 (canceler st3) = canceler st3
          \<and> canceler (complete_task ex_env 1 st2) = \<lparr>rc_m = [], rc_called = []\<rparr>
          \<and> map t_cancelFn (tasks (complete_task ex_env 1 st2)) = [0])\<close>
  using register_replaces_entry [of "addRequest 5 7 rc_empty" 5 7 8 "[Cancel 5, CancelAll]"
      ex_env \<open>''{"id":1,"method":"ping","params":null}''\<close>
      "\<lparr>req_ID = 1, req_Method = ''ping'', req_Params = ''null''\<rparr>"
      \<open>''{"id":1,"method":"ping","params":null}''\<close>
      "\<lparr>req_ID = 1, req_Method = ''ping'', req_Params = ''null''\<rparr>"
      \<open>\<lambda>ctx params w. (Return (Some ''{"pong":true}'') None, Suc w)\<close>
      \<open>\<lambda>ctx params w. (Return (Some ''{"pong":true}'') None, Suc w)\<close>
      listener0]
  by (simp add: ex_defs rc_defs handleRequest_def complete_task_def requestTask_def Let_def
       task_defers_def serveResponse_def Encoder_Encode_def conn_Write_def connCtx_Err_def
       reqCtx_Err_def)

section \<open>Classifying a failure\<close>

lemma errors_As_chain: "errors_As (foldr Wrapped msgs (RpcError e)) = Some e"
  by (induction msgs) simp_all

lemma errors_As_Some_chain:
  "errors_As err = Some e \<Longrightarrow> \<exists>msgs. err = foldr Wrapped msgs (RpcError e)"
proof (induction err)
  case (RpcError x)
  then have "RpcError x = foldr Wrapped [] (RpcError e)" by simp
  then show ?case by blast
next
  case (Wrapped msg inner)
  then obtain msgs where "inner = foldr Wrapped msgs (RpcError e)" by auto
  then have "Wrapped msg inner = foldr Wrapped (msg # msgs) (RpcError e)" by simp
  then show ?case by blast
qed simp_all

text \<open>
  Claim C8, as it is worded, at a failure that wraps a protocol Error: a handler that
  returns \<open>fmt.Errorf("query failed: %w", e)\<close> for the InvalidParams error \<open>e\<close> with the
  message \<open>boom\<close>. \<open>WrapError\<close> returns \<open>e\<close>; the failure itself, whose message is
  \<open>query failed: boom (code: -32602)\<close>, is not what comes back.
\<close>

theorem WrapError_drops_wrapper:
  "WrapError (fmt_Errorf_w ''query failed: ''
       (RpcError \<lparr>Code = ErrorCodeInvalidParams, Message = ''boom'', Data = None :: unit option\<rparr>))
     = \<lparr>Code = - 32602, Message = ''boom'', Data = None\<rparr>
   \<and> goerror_Error (fmt_Errorf_w ''query failed: ''
       (RpcError \<lparr>Code = ErrorCodeInvalidParams, Message = ''boom'', Data = None :: unit option\<rparr>))
     = ''query failed: boom (code: -32602)''
   \<and> RpcError (WrapError (fmt_Errorf_w ''query failed: ''
       (RpcError \<lparr>Code = ErrorCodeInvalidParams, Message = ''boom'', Data = None :: unit option\<rparr>)))
     \<noteq> fmt_Errorf_w ''query failed: ''
       (RpcError \<lparr>Code = ErrorCodeInvalidParams, Message = ''boom'', Data = None :: unit option\<rparr>)"
  by (simp add: WrapError_def fmt_Errorf_w_def ErrorCodeInvalidParams_def Error_Error_def
      fmt_d_def nat_digits.simps)

text \<open>
  Claim C8, amended. \<open>WrapError\<close> returns a failure that is a protocol Error unchanged;
  for a failure that wraps a protocol Error, at any depth, it returns the wrapped
  protocol Error (the messages of the wrapping errors are dropped); a failure is one of
  these two exactly when \<open>errors.As\<close> finds a protocol Error in it; and for every other
  failure it returns a new Error with the code -32603 (InternalError), the failure's
  message and no data.
\<close>

theorem WrapError_classifies:
  "WrapError (RpcError e) = e
   \<and> WrapError (foldr Wrapped msgs (RpcError e)) = e
   \<and> (errors_As err = Some e) = (\<exists>msgs. err = foldr Wrapped msgs (RpcError e))
   \<and> (errors_As err = None \<longrightarrow>
        WrapError err = \<lparr>Code = - 32603, Message = goerror_Error err, Data = None\<rparr>)"
proof (intro conjI impI)
  show "WrapError (RpcError e) = e" by (simp add: WrapError_def)
  show "WrapError (foldr Wrapped msgs (RpcError e)) = e"
    by (simp add: WrapError_def errors_As_chain)
  show "(errors_As err = Some e) = (\<exists>msgs. err = foldr Wrapped msgs (RpcError e))"
    using errors_As_Some_chain [of err e] errors_As_chain [of _ e] by auto
next
  assume "errors_As err = None"
  then show "WrapError err = \<lparr>Code = - 32603, Message = goerror_Error err, Data = None\<rparr>"
    by (simp add: WrapError_def NewError_def ErrorCodeInternalError_def)
qed

theorem WrapError_classifies_witness:
  "errors_As (fmt_Errorf_w ''read: '' io_EOF :: unit goerror) = None
   \<and> WrapError (fmt_Errorf_w ''read: '' io_EOF :: unit goerror)
       = \<lparr>Code = - 32603, Message = ''read: EOF'', Data = None\<rparr>
   \<and> WrapError (foldr Wrapped [''outer'', ''inner'']
         (RpcError \<lparr>Code = - 32601, Message = ''no such method'', Data = None :: unit option\<rparr>))
       = \<lparr>Code = - 32601, Message = ''no such method'', Data = None\<rparr>"
  using WrapError_classifies [of "\<lparr>Code = - 32601, Message = ''no such method'', Data = None :: unit option\<rparr>"
      "[''outer'', ''inner'']" "fmt_Errorf_w ''read: '' io_EOF"]
  by (simp add: fmt_Errorf_w_def)

section \<open>The typed handler adapter: decoding before invoking\<close>

text \<open>
  Claim C4. When the raw parameters fail to decode, the adapter returns a nil result and
  a ParseError (code -32700) whose message is the decode failure's, and the business
  function is not invoked: the state of the business logic and the call count are
  unchanged. When they decode, the adapter's outcome and the state it leaves are those
  of one call of the business function with the same context and the decoded value, and
  the call count grows by one.
\<close>

theorem HandleRequest_decodes_then_invokes:
  "(unmarshal params = Inl err \<longrightarrow>
      HandleRequest unmarshal handleFunc ctx params w
        = (Return None (Some (RpcError \<lparr>Code = - 32700, Message = goerror_Error err, Data = None\<rparr>)), w)
      \<and> HandleRequest unmarshal (counting handleFunc) ctx params (n, w)
        = (Return None (Some (RpcError \<lparr>Code = - 32700, Message = goerror_Error err, Data = None\<rparr>)), (n, w)))
   \<and> (unmarshal params = Inr req \<longrightarrow>
      HandleRequest unmarshal handleFunc ctx params w = handleFunc ctx req w
      \<and> HandleRequest unmarshal (counting handleFunc) ctx params (n, w)
        = (fst (handleFunc ctx req w), (Suc n, snd (handleFunc ctx req w))))"
  by (simp add: HandleRequest_def counting_def NewError_def ErrorCodeParseError_def
      split: prod.splits)

theorem HandleRequest_decodes_then_invokes_witness:
  "ex_Unmarshal_int ''x'' = Inl (ErrorString ''unexpected end of JSON input'')
   \<and> HandleRequest ex_Unmarshal_int
         (counting (\<lambda>ctx i w. (Return (Some (fmt_d i)) None, w + nat i))) False ''x'' (0, 5 :: nat)
       = (Return None (Some (RpcError \<lparr>Code = - 32700,
            Message = ''unexpected end of JSON input'', Data = None\<rparr>)), (0, 5))
   \<and> ex_Unmarshal_int ''1'' = Inr 1
   \<and> HandleRequest ex_Unmarshal_int
         (counting (\<lambda>ctx i w. (Return (Some (fmt_d i)) None, w + nat i))) False ''1'' (0, 5 :: nat)
       = (Return (Some ''1'') None, (1, 6))"
  using HandleRequest_decodes_then_invokes [of ex_Unmarshal_int "''x''"
          "ErrorString ''unexpected end of JSON input''"
          "\<lambda>ctx i w. (Return (Some (fmt_d i)) None, w + nat i)" False 5 0 1]
        HandleRequest_decodes_then_invokes [of ex_Unmarshal_int "''1''"
          "ErrorString ''unexpected end of JSON input''"
          "\<lambda>ctx i w. (Return (Some (fmt_d i)) None, w + nat i)" False 5 0 1]
  by (simp add: ex_Unmarshal_int_def fmt_d_def nat_digits.simps)

section \<open>The bytes of a response\<close>

lemma serveResponse_out:
  "out (snd (serveResponse env rsp st)) =
     out st @ (case json_Marshal env rsp of
                 Inl err \<Rightarrow> []
               | Inr js \<Rightarrow> if closed st then [] else replicate 1024 (CHR 0x00) @ js @ [CHR 0x0A])"
  by (simp add: serveResponse_def Encoder_Encode_def conn_Write_def split: sum.splits)

text \<open>
  Claim C1 says that the bytes written for a response are its JSON text and one newline,
  and nothing else. \<open>serveResponse\<close> evaluated at the success response with id 1 and the
  result \<open>{"pong":true}\<close>, on an open connection with nothing written yet: the bytes
  written are 1024 zero bytes, then the JSON text, then the newline.
\<close>

theorem serveResponse_writes_zero_bytes_first:
  \<open>out (snd (serveResponse ex_env
       \<lparr>rsp_ID = 1, rsp_Result = Some ''{"pong":true}'', rsp_Error = None\<rparr> listener0))
     = replicate 1024 (CHR 0x00) @ ''{"id":1,"result":{"pong":true}}'' @ [CHR 0x0A]
   \<and> length (out (snd (serveResponse ex_env
       \<lparr>rsp_ID = 1, rsp_Result = Some ''{"pong":true}'', rsp_Error = None\<rparr> listener0)))
     = 1024 + length (''{"id":1,"result":{"pong":true}}'' @ [CHR 0x0A])
   \<and> out (snd (serveResponse ex_env
       \<lparr>rsp_ID = 1, rsp_Result = Some ''{"pong":true}'', rsp_Error = None\<rparr> listener0))
     \<noteq> ''{"id":1,"result":{"pong":true}}'' @ [CHR 0x0A]\<close>
proof -
  let ?rsp = \<open>\<lparr>rsp_ID = 1, rsp_Result = Some ''{"pong":true}'', rsp_Error = None\<rparr>\<close>
  let ?js = \<open>''{"id":1,"result":{"pong":true}}''\<close>
  have m: "json_Marshal ex_env ?rsp = Inr ?js"
    by (simp add: ex_env_def ex_Marshal_def fmt_d_def nat_digits.simps)
  have o: "out (snd (serveResponse ex_env ?rsp listener0)) = replicate 1024 (CHR 0x00) @ ?js @ [CHR 0x0A]"
    unfolding serveResponse_out m by (simp add: listener0_def)
  have l: "length (out (snd (serveResponse ex_env ?rsp listener0))) = 1024 + length (?js @ [CHR 0x0A])"
    unfolding o by (simp only: length_append length_replicate)
  have "length (out (snd (serveResponse ex_env ?rsp listener0))) \<noteq> length (?js @ [CHR 0x0A])"
    unfolding l by simp
  then have n: "out (snd (serveResponse ex_env ?rsp listener0)) \<noteq> ?js @ [CHR 0x0A]"
    by metis
  from o l n show ?thesis by blast
qed

section \<open>The end of a task\<close>

lemma requestTask_return_canceled:
  "t_handler t (reqCtx_Err (t_cancelFn t) st) (req_Params (t_req t)) (world st) = (Return res err, w') \<Longrightarrow>
   connCtx_Err st \<Longrightarrow> out (requestTask env t st) = out st"
  by (simp add: requestTask_def Let_def task_defers_keeps connCtx_Err_def)

lemma requestTask_panic_writes:
  "t_handler t (reqCtx_Err (t_cancelFn t) st) (req_Params (t_req t)) (world st) = (Panic r, w') \<Longrightarrow>
   \<not> closed st \<Longrightarrow>
   json_Marshal env (AsResponse (Errorf (strconv_Quote env) ErrorCodeInternalError ''%s'' [panic_arg r])
      (req_ID (t_req t))) = Inr js \<Longrightarrow>
   out (requestTask env t st) = out st @ replicate 1024 (CHR 0x00) @ js @ [CHR 0x0A]"
  by (simp add: requestTask_def Let_def serveError_def serveResponse_out task_defers_keeps)

text \<open>
  Claim C2 says that no response is written for a request once the connection context
  is canceled, also when the handler panics. The listener evaluated at a request for the
  handler that panics, with the owning context canceled before the task completes and
  the connection still open: the InternalError response is written. At the same
  schedule with the handler that returns, nothing is written.
\<close>

theorem panic_response_written_after_cancel:
  \<open>fst (ListenStream_loop ex_env
          [Read (''{"id":1,"method":"boom"}'' @ [CHR 0x0A]) None, OwnerCancel, TaskDone 0]
          listener0) = Waiting
   \<and> connCtx_Err (snd (ListenStream_loop ex_env
          [Read (''{"id":1,"method":"boom"}'' @ [CHR 0x0A]) None, OwnerCancel, TaskDone 0]
          listener0))
   \<and> out (snd (ListenStream_loop ex_env
          [Read (''{"id":1,"method":"boom"}'' @ [CHR 0x0A]) None, OwnerCancel, TaskDone 0]
          listener0))
       = replicate 1024 (CHR 0x00) @ ''{"id":1,"error":{"code":-32603,"message":"boom"}}'' @ [CHR 0x0A]
   \<and> out (snd (ListenStream_loop ex_env
          [Read (''{"id":1,"method":"ping","params":null}'' @ [CHR 0x0A]) None, OwnerCancel, TaskDone 0]
          listener0))
       = []\<close>
  by (simp add: ex_defs rc_defs listener_defs)

section \<open>The read loop\<close>

lemma handleNotification_keeps:
  "ctxDone (snd (handleNotification env req st)) = ctxDone st"
  "connCanceled (snd (handleNotification env req st)) = connCanceled st"
  "closed (snd (handleNotification env req st)) = closed st"
  "out (snd (handleNotification env req st)) = out st"
  by (simp_all add: handleNotification_def split: sum.splits)

lemma handleRequest_keeps:
  "ctxDone (snd (handleRequest env d st)) = ctxDone st"
  "connCanceled (snd (handleRequest env d st)) = connCanceled st"
  "closed (snd (handleRequest env d st)) = closed st"
proof -
  have "ctxDone (snd (handleRequest env d st)) = ctxDone st
      \<and> connCanceled (snd (handleRequest env d st)) = connCanceled st
      \<and> closed (snd (handleRequest env d st)) = closed st"
  proof (cases "json_Unmarshal_Request env d")
    case (Inl err)
    then show ?thesis by (simp add: handleRequest_def serveError_def serveResponse_keeps)
  next
    case (Inr req)
    show ?thesis
    proof (cases "req_ID req = 0")
      case True
      obtain e st' where hn: "handleNotification env req st = (e, st')" by (cases "handleNotification env req st")
      with handleNotification_keeps [of env req st]
      have "ctxDone st' = ctxDone st" "connCanceled st' = connCanceled st" "closed st' = closed st"
        by simp_all
      with Inr True hn show ?thesis
        by (cases e) (simp_all add: handleRequest_def serveResponse_keeps)
    next
      case False
      with Inr show ?thesis
        by (cases "handlers env (req_Method req)")
           (simp_all add: handleRequest_def serveResponse_keeps Let_def)
    qed
  qed
  then show "ctxDone (snd (handleRequest env d st)) = ctxDone st"
    "connCanceled (snd (handleRequest env d st)) = connCanceled st"
    "closed (snd (handleRequest env d st)) = closed st" by simp_all
qed

lemma handleRequest_connCtx_Err: "connCtx_Err (snd (handleRequest env d st)) = connCtx_Err st"
  by (simp add: connCtx_Err_def handleRequest_keeps)

lemma loop_Read_blank:
  "data \<noteq> [] \<Longrightarrow> bytes_TrimSpace env data = [] \<Longrightarrow>
   ListenStream_loop env (Read data err # es) st = ListenStream_loop env es st"
  by simp

lemma loop_Read_empty:
  "ListenStream_loop env (Read [] None # es) st = ListenStream_loop env es st"
  "ListenStream_loop env (Read [] (Some e) # es) st = (Returned (read_error_result e st), st)"
  by simp_all


lemma ListenStream_loop_append:
  "ListenStream_loop env pre st = (Waiting, st1) \<Longrightarrow>
   ListenStream_loop env (pre @ es) st = ListenStream_loop env es st1"
proof (induction pre arbitrary: st)
  case Nil
  then show ?case by simp
next
  case (Cons ev pre)
  show ?case
  proof (cases ev)
    case (Read data err)
    consider (blank) "data \<noteq> []" "bytes_TrimSpace env data = []"
      | (empty) "data = []"
      | (line) "data \<noteq> []" "bytes_TrimSpace env data \<noteq> []"
      by blast
    then show ?thesis
    proof cases
      case blank
      with Read Cons.prems have "ListenStream_loop env pre st = (Waiting, st1)"
        by (simp add: Let_def)
      from Cons.IH [OF this] blank Read show ?thesis
        by (simp add: Let_def)
    next
      case empty
      show ?thesis
      proof (cases err)
        case None
        with empty Read Cons.prems have "ListenStream_loop env pre st = (Waiting, st1)"
          by (simp add: Let_def)
        from Cons.IH [OF this] empty Read None show ?thesis
          by (simp add: Let_def)
      next
        case (Some e)
        with empty Read Cons.prems show ?thesis by (simp add: Let_def)
      qed
    next
      case line
      show ?thesis
      proof (cases err)
        case None
        with line Read Cons.prems
        have "ListenStream_loop env pre (snd (handleRequest env (bytes_TrimSpace env data) st))
                = (Waiting, st1)"
          by (simp add: Let_def)
        from Cons.IH [OF this] line Read None show ?thesis
          by (simp add: Let_def)
      next
        case (Some e)
        with line Read Cons.prems show ?thesis by (simp add: Let_def)
      qed
    qed
  next
    case OwnerCancel
    with Cons show ?thesis by simp
  next
    case WatcherClose
    with Cons show ?thesis by simp
  next
    case (TaskDone k)
    with Cons show ?thesis by simp
  qed
qed

lemma requestTask_keeps_ctx:
  "ctxDone (requestTask env t st) = ctxDone st"
  "connCanceled (requestTask env t st) = connCanceled st"
  by (simp_all add: requestTask_def Let_def serveError_def serveResponse_keeps task_defers_keeps
      split: prod.splits outcome.splits)

lemma complete_task_connCtx_Err: "connCtx_Err (complete_task env k st) = connCtx_Err st"
  by (simp add: complete_task_def connCtx_Err_def requestTask_keeps_ctx)

lemma loop_connCtx_Err:
  "ListenStream_loop env pre st = (Waiting, st1) \<Longrightarrow>
   connCtx_Err st1 = (if connCtx_Err st then True else OwnerCancel \<in> set pre)"
proof (induction pre arbitrary: st)
  case Nil
  then show ?case by simp
next
  case (Cons ev pre)
  show ?case
  proof (cases ev)
    case (Read data err)
    consider (blank) "data \<noteq> []" "bytes_TrimSpace env data = []"
      | (empty) "data = []"
      | (line) "data \<noteq> []" "bytes_TrimSpace env data \<noteq> []"
      by blast
    then show ?thesis
    proof cases
      case blank
      with Read Cons.prems have "ListenStream_loop env pre st = (Waiting, st1)" by simp
      from Cons.IH [OF this] Read show ?thesis by simp
    next
      case empty
      with Read Cons.prems have "ListenStream_loop env pre st = (Waiting, st1)"
        by (cases err) simp_all
      from Cons.IH [OF this] Read show ?thesis by simp
    next
      case line
      with Read Cons.prems
      have "ListenStream_loop env pre (snd (handleRequest env (bytes_TrimSpace env data) st))
              = (Waiting, st1)"
        by (cases err) (simp_all add: Let_def)
      from Cons.IH [OF this] Read show ?thesis by (simp add: handleRequest_connCtx_Err)
    qed
  next
    case OwnerCancel
    with Cons.prems have "ListenStream_loop env pre (st\<lparr>ctxDone := True\<rparr>) = (Waiting, st1)"
      by simp
    from Cons.IH [OF this] OwnerCancel show ?thesis by (simp add: connCtx_Err_def)
  next
    case WatcherClose
    with Cons.prems
    have "ListenStream_loop env pre (if ctxDone st then st\<lparr>closed := True\<rparr> else st) = (Waiting, st1)"
      by simp
    from Cons.IH [OF this] WatcherClose show ?thesis by (simp add: connCtx_Err_def)
  next
    case (TaskDone k)
    with Cons.prems have "ListenStream_loop env pre (complete_task env k st) = (Waiting, st1)"
      by simp
    from Cons.IH [OF this] TaskDone show ?thesis by (simp add: complete_task_connCtx_Err)
  qed
qed




section \<open>Read errors\<close>

text \<open>
  Claim C6, as it is worded, at a read error that comes with white space only:
  \<open>ReadBytes\<close> returns two spaces and the error \<open>connection reset by peer\<close>, and the
  connection context is not canceled. The loop takes the \<open>continue\<close> of a blank line and
  is back in \<open>ReadBytes\<close>; when the next read gives end of stream, \<open>ListenStream\<close> returns
  nil. The same error with no data is surfaced.
\<close>

theorem blank_chunk_hides_read_error:
  "\<not> connCtx_Err listener0
   \<and> ListenStream ex_env [Read ''  '' (Some (ErrorString ''connection reset by peer''))] listener0
       = (Waiting, listener0)
   \<and> fst (ListenStream ex_env
         [Read ''  '' (Some (ErrorString ''connection reset by peer'')), Read [] (Some io_EOF)]
         listener0)
       = Returned None
   \<and> fst (ListenStream ex_env [Read [] (Some (ErrorString ''connection reset by peer''))] listener0)
       = Returned (Some (Wrapped ''connection read failed: connection reset by peer''
                    (ErrorString ''connection reset by peer'')))"
  by (simp add: ListenStream_def ex_defs rc_defs listener_defs)

text \<open>
  Claim C6, amended. When the read loop has got through the events \<open>pre\<close> and \<open>ReadBytes\<close>
  then returns a read error with no data or with a line that is not blank,
  \<open>ListenStream\<close> returns: nil when the error is or wraps end of stream or the closed
  connection; nil when the owning context was canceled before (at the start or by an
  event of \<open>pre\<close>); and otherwise the error \<open>connection read failed\<close> that wraps the read
  error. A chunk of white space only is skipped with whatever error came with it: the
  loop reads again.
\<close>

theorem read_error_ends_loop:
  "(ListenStream_loop env pre st = (Waiting, st1) \<and> (data = [] \<or> bytes_TrimSpace env data \<noteq> []) \<longrightarrow>
      fst (ListenStream env (pre @ Read data (Some e) # es) st) =
        Returned (if errors_Is e io_EOF then None
                  else if errors_Is e net_ErrClosed then None
                  else if connCtx_Err st then None
                  else if OwnerCancel \<in> set pre then None
                  else Some (Wrapped (''connection read failed: '' @ goerror_Error e) e)))
   \<and> (ListenStream_loop env pre st = (Waiting, st1) \<and> data \<noteq> [] \<and> bytes_TrimSpace env data = [] \<longrightarrow>
      ListenStream_loop env (pre @ Read data err # es) st = ListenStream_loop env es st1)"
proof (intro conjI impI)
  assume a: "ListenStream_loop env pre st = (Waiting, st1) \<and> (data = [] \<or> bytes_TrimSpace env data \<noteq> [])"
  then have pre: "ListenStream_loop env pre st = (Waiting, st1)" by simp
  have ctx: "connCtx_Err st1 = (if connCtx_Err st then True else OwnerCancel \<in> set pre)"
    using pre by (rule loop_connCtx_Err)
  have "\<exists>st2. ListenStream_loop env (Read data (Some e) # es) st1 = (Returned (read_error_result e st2), st2)
            \<and> connCtx_Err st2 = connCtx_Err st1"
  proof (cases "data = []")
    case True
    then have "ListenStream_loop env (Read data (Some e) # es) st1
        = (Returned (read_error_result e st1), st1)"
      by (simp add: loop_Read_empty)
    then show ?thesis by blast
  next
    case False
    with a have "bytes_TrimSpace env data \<noteq> []" by simp
    with False have "ListenStream_loop env (Read data (Some e) # es) st1 =
        (Returned (read_error_result e (snd (handleRequest env (bytes_TrimSpace env data) st1))),
         snd (handleRequest env (bytes_TrimSpace env data) st1))"
      by (simp add: Let_def)
    then show ?thesis using handleRequest_connCtx_Err by blast
  qed
  then obtain st2 where
    r: "ListenStream_loop env (Read data (Some e) # es) st1 = (Returned (read_error_result e st2), st2)"
    and c: "connCtx_Err st2 = connCtx_Err st1" by blast
  have "ListenStream_loop env (pre @ Read data (Some e) # es) st = (Returned (read_error_result e st2), st2)"
    using ListenStream_loop_append [OF pre] r by simp
  then have "fst (ListenStream env (pre @ Read data (Some e) # es) st) = Returned (read_error_result e st2)"
    by (simp add: ListenStream_def)
  then show "fst (ListenStream env (pre @ Read data (Some e) # es) st) =
        Returned (if errors_Is e io_EOF then None
                  else if errors_Is e net_ErrClosed then None
                  else if connCtx_Err st then None
                  else if OwnerCancel \<in> set pre then None
                  else Some (Wrapped (''connection read failed: '' @ goerror_Error e) e))"
    by (simp add: read_error_result_def c ctx fmt_Errorf_w_def)
next
  assume a: "ListenStream_loop env pre st = (Waiting, st1) \<and> data \<noteq> [] \<and> bytes_TrimSpace env data = []"
  then have "ListenStream_loop env (pre @ Read data err # es) st
      = ListenStream_loop env (Read data err # es) st1"
    by (simp add: ListenStream_loop_append)
  with a show "ListenStream_loop env (pre @ Read data err # es) st = ListenStream_loop env es st1"
    by (simp add: loop_Read_blank)
qed

theorem read_error_ends_loop_witness:
  \<open>ListenStream_loop ex_env [OwnerCancel] listener0 = (Waiting, listener0\<lparr>ctxDone := True\<rparr>)
   \<and> fst (ListenStream ex_env [OwnerCancel, Read [] (Some (ErrorString ''broken pipe''))] listener0)
       = Returned None
   \<and> ListenStream_loop ex_env [] listener0 = (Waiting, listener0)
   \<and> bytes_TrimSpace ex_env ''{"id":'' = ''{"id":''
   \<and> fst (ListenStream ex_env [Read ''{"id":'' (Some (ErrorString ''broken pipe''))] listener0)
       = Returned (Some (Wrapped ''connection read failed: broken pipe'' (ErrorString ''broken pipe'')))
   \<and> fst (ListenStream ex_env [Read ''{"id":'' (Some (Wrapped ''read: EOF'' io_EOF))] listener0)
       = Returned None
   \<and> bytes_TrimSpace ex_env [CHR 0x0A] = []
   \<and> ListenStream_loop ex_env [Read [CHR 0x0A] None, Read [] (Some net_ErrClosed)] listener0
       = ListenStream_loop ex_env [Read [] (Some net_ErrClosed)] listener0\<close>
  using read_error_ends_loop [of ex_env "[OwnerCancel]" listener0 "listener0\<lparr>ctxDone := True\<rparr>" "[]"
          "ErrorString ''broken pipe''" "[]" None]
        read_error_ends_loop [of ex_env "[]" listener0 listener0 \<open>''{"id":''\<close>
          "ErrorString ''broken pipe''" "[]" None]
        read_error_ends_loop [of ex_env "[]" listener0 listener0 \<open>''{"id":''\<close>
          "Wrapped ''read: EOF'' io_EOF" "[]" None]
        read_error_ends_loop [of ex_env "[]" listener0 listener0 "[CHR 0x0A]"
          "ErrorString ''broken pipe''" "[Read [] (Some net_ErrClosed)]" None]
  by (simp add: ex_defs rc_defs listener_defs)

section \<open>Notifications\<close>

lemma handleNotification_cases:
  "req_Method req \<noteq> NotificationCancelRequest \<Longrightarrow>
   handleNotification env req st =
     (Some (RpcError \<lparr>Code = - 32601,
        Message = ''unsupported notification '' @ strconv_Quote env (req_Method req),
        Data = None\<rparr>), st)"
  "req_Method req = NotificationCancelRequest \<Longrightarrow> json_Unmarshal_int env (req_Params req) = Inl err \<Longrightarrow>
   handleNotification env req st =
     (Some (RpcError \<lparr>Code = - 32602, Message = ''cannot read params: '' @ goerror_Error err,
        Data = None\<rparr>), st)"
  "req_Method req = NotificationCancelRequest \<Longrightarrow> json_Unmarshal_int env (req_Params req) = Inr 0 \<Longrightarrow>
   handleNotification env req st =
     (Some (RpcError \<lparr>Code = - 32602, Message = ''missing request ID'', Data = None\<rparr>), st)"
  "req_Method req = NotificationCancelRequest \<Longrightarrow> json_Unmarshal_int env (req_Params req) = Inr n \<Longrightarrow>
   n \<noteq> 0 \<Longrightarrow>
   handleNotification env req st = (None, st\<lparr>canceler := cancelRequest n (canceler st)\<rparr>)"
  by (simp_all add: handleNotification_def Errorf_def ErrorCodeMethodNotFound_def
      ErrorCodeInvalidParams_def)

lemma cancelRequest_present:
  "map_of (rc_m rc) reqID = Some f \<Longrightarrow>
   rc_called (cancelRequest reqID rc) = rc_called rc @ [f]"
  by (simp add: cancelRequest_def)

text \<open>
  Claim C7, as it is worded, at a cancellation notification whose payload is not an
  integer: the request 1 is in flight and the line \<open>{"id":0,"method":"$/cancelRequest"}\<close>
  arrives, which has no payload at all. The claim's last case (the method is
  \<open>$/cancelRequest\<close> and the integer payload is not 0) would have a cancel function
  called and nothing written. \<open>handleNotification\<close> fails with InvalidParams at the
  decoding of the payload: the registry keeps the entry of request 1, no cancel function
  is called, and an error response for the id 0 is written.
\<close>

theorem undecodable_cancel_payload_is_answered:
  \<open>json_Unmarshal_Request ex_env ''{"id":0,"method":"$/cancelRequest"}''
       = Inr \<lparr>req_ID = 0, req_Method = NotificationCancelRequest, req_Params = []\<rparr>
   \<and> json_Unmarshal_int ex_env [] = Inl (ErrorString ''unexpected end of JSON input'')
   \<and> canceler (snd (handleRequest ex_env ''{"id":1,"method":"ping","params":null}'' listener0))
       = \<lparr>rc_m = [(1, 0)], rc_called = []\<rparr>
   \<and> canceler (snd (handleRequest ex_env ''{"id":0,"method":"$/cancelRequest"}''
         (snd (handleRequest ex_env ''{"id":1,"method":"ping","params":null}'' listener0))))
       = \<lparr>rc_m = [(1, 0)], rc_called = []\<rparr>
   \<and> out (snd (handleRequest ex_env ''{"id":0,"method":"$/cancelRequest"}''
         (snd (handleRequest ex_env ''{"id":1,"method":"ping","params":null}'' listener0))))
       = replicate 1024 (CHR 0x00)
         @ ''{"id":0,"error":{"code":-32602,"message":"cannot read params: unexpected end of JSON input"}}''
         @ [CHR 0x0A]\<close>
  by (simp add: ex_defs rc_defs listener_defs)

text \<open>
  Claim C7, amended. For a decoded request with the id 0: when the method is not
  \<open>$/cancelRequest\<close>, the listener calls \<open>serveResponse\<close> with an error response for the
  id 0 (MethodNotFound); when it is and the payload decodes to the integer 0,
  \<open>handleNotification\<close> fails with InvalidParams (code -32602), which is answered to the
  id 0; when it is and the payload does not decode as an integer, it fails with
  InvalidParams as well, which is answered to the id 0, and no cancel function is called;
  when it is and the payload decodes to another integer, the registry's \<open>cancelRequest\<close>
  runs for that integer, calling the cancel function of its entry if there is one, and
  nothing is written. On an open connection, with a response the encoder accepts,
  \<open>serveResponse\<close> appends the bytes of the response to the output.
\<close>

theorem notification_dispatch:
  "json_Unmarshal_Request env data = Inr req \<and> req_ID req = 0 \<longrightarrow>
     (req_Method req \<noteq> NotificationCancelRequest \<longrightarrow>
        handleRequest env data st =
          serveResponse env \<lparr>rsp_ID = 0, rsp_Result = None,
            rsp_Error = Some \<lparr>Code = - 32601,
              Message = ''unsupported notification '' @ strconv_Quote env (req_Method req),
              Data = None\<rparr>\<rparr> st)
     \<and> (req_Method req = NotificationCancelRequest \<and> json_Unmarshal_int env (req_Params req) = Inr 0 \<longrightarrow>
        handleNotification env req st =
          (Some (RpcError \<lparr>Code = - 32602, Message = ''missing request ID'', Data = None\<rparr>), st)
        \<and> handleRequest env data st =
          serveResponse env \<lparr>rsp_ID = 0, rsp_Result = None,
            rsp_Error = Some \<lparr>Code = - 32602, Message = ''missing request ID'', Data = None\<rparr>\<rparr> st)
     \<and> (req_Method req = NotificationCancelRequest \<and> json_Unmarshal_int env (req_Params req) = Inr n
          \<and> n \<noteq> 0 \<longrightarrow>
        handleRequest env data st = (None, st\<lparr>canceler := cancelRequest n (canceler st)\<rparr>)
        \<and> out (snd (handleRequest env data st)) = out st
        \<and> (map_of (rc_m (canceler st)) n = Some f \<longrightarrow>
             rc_called (canceler (snd (handleRequest env data st))) = rc_called (canceler st) @ [f]))
     \<and> (req_Method req = NotificationCancelRequest \<and> json_Unmarshal_int env (req_Params req) = Inl err \<longrightarrow>
        handleRequest env data st =
          serveResponse env \<lparr>rsp_ID = 0, rsp_Result = None,
            rsp_Error = Some \<lparr>Code = - 32602,
              Message = ''cannot read params: '' @ goerror_Error err, Data = None\<rparr>\<rparr> st)
     \<and> (\<not> closed st \<and> json_Marshal env rsp = Inr js \<longrightarrow>
        snd (serveResponse env rsp st)
          = st\<lparr>out := out st @ replicate 1024 (CHR 0x00) @ js @ [CHR 0x0A]\<rparr>)"
proof (intro impI conjI)
  assume a: "json_Unmarshal_Request env data = Inr req \<and> req_ID req = 0"
  {
    assume "req_Method req \<noteq> NotificationCancelRequest"
    with a show "handleRequest env data st =
          serveResponse env \<lparr>rsp_ID = 0, rsp_Result = None,
            rsp_Error = Some \<lparr>Code = - 32601,
              Message = ''unsupported notification '' @ strconv_Quote env (req_Method req),
              Data = None\<rparr>\<rparr> st"
      by (simp add: handleRequest_def handleNotification_cases WrapError_def AsResponse_def)
  }
  {
    assume b: "req_Method req = NotificationCancelRequest \<and> json_Unmarshal_int env (req_Params req) = Inr 0"
    then show "handleNotification env req st =
          (Some (RpcError \<lparr>Code = - 32602, Message = ''missing request ID'', Data = None\<rparr>), st)"
      by (simp add: handleNotification_cases)
    from a b show "handleRequest env data st =
          serveResponse env \<lparr>rsp_ID = 0, rsp_Result = None,
            rsp_Error = Some \<lparr>Code = - 32602, Message = ''missing request ID'', Data = None\<rparr>\<rparr> st"
      by (simp add: handleRequest_def handleNotification_cases WrapError_def AsResponse_def)
  }
  {
    assume b: "req_Method req = NotificationCancelRequest \<and> json_Unmarshal_int env (req_Params req) = Inr n
          \<and> n \<noteq> 0"
    with a show h: "handleRequest env data st = (None, st\<lparr>canceler := cancelRequest n (canceler st)\<rparr>)"
      by (simp add: handleRequest_def handleNotification_cases)
    then show "out (snd (handleRequest env data st)) = out st" by simp
    {
      assume "map_of (rc_m (canceler st)) n = Some f"
      with h show "rc_called (canceler (snd (handleRequest env data st))) = rc_called (canceler st) @ [f]"
        by (simp add: cancelRequest_present)
    }
  }
  {
    assume b: "req_Method req = NotificationCancelRequest \<and> json_Unmarshal_int env (req_Params req) = Inl err"
    with a show "handleRequest env data st =
          serveResponse env \<lparr>rsp_ID = 0, rsp_Result = None,
            rsp_Error = Some \<lparr>Code = - 32602,
              Message = ''cannot read params: '' @ goerror_Error err, Data = None\<rparr>\<rparr> st"
      by (simp add: handleRequest_def handleNotification_cases WrapError_def AsResponse_def)
  }
  {
    assume "\<not> closed st \<and> json_Marshal env rsp = Inr js"
    then show "snd (serveResponse env rsp st)
          = st\<lparr>out := out st @ replicate 1024 (CHR 0x00) @ js @ [CHR 0x0A]\<rparr>"
      by (simp add: serveResponse_open)
  }
qed


theorem notification_dispatch_witness:
  \<open>json_Unmarshal_Request ex_env ''{"id":0,"method":"hello"}''
       = Inr \<lparr>req_ID = 0, req_Method = ''hello'', req_Params = []\<rparr>
   \<and> out (snd (handleRequest ex_env ''{"id":0,"method":"hello"}'' listener0))
       = replicate 1024 (CHR 0x00)
         @ ''{"id":0,"error":{"code":-32601,"message":"unsupported notification ''
         @ [CHR 0x5C, CHR 0x22] @ ''hello'' @ [CHR 0x5C, CHR 0x22] @ ''"}}'' @ [CHR 0x0A]
   \<and> json_Unmarshal_int ex_env ''0'' = Inr 0
   \<and> handleRequest ex_env ''{"id":0,"method":"$/cancelRequest","params":0}'' listener0
       = (None, listener0\<lparr>out := replicate 1024 (CHR 0x00)
           @ ''{"id":0,"error":{"code":-32602,"message":"missing request ID"}}'' @ [CHR 0x0A]\<rparr>)
   \<and> canceler (snd (handleRequest ex_env ''{"id":1,"method":"ping","params":null}'' listener0))
       = \<lparr>rc_m = [(1, 0)], rc_called = []\<rparr>
   \<and> json_Unmarshal_int ex_env ''1'' = Inr 1
   \<and> canceler (snd (handleRequest ex_env ''{"id":0,"method":"$/cancelRequest","params":1}''
         (snd (handleRequest ex_env ''{"id":1,"method":"ping","params":null}'' listener0))))
       = \<lparr>rc_m = [], rc_called = [0]\<rparr>
   \<and> out (snd (handleRequest ex_env ''{"id":0,"method":"$/cancelRequest","params":1}''
         (snd (handleRequest ex_env ''{"id":1,"method":"ping","params":null}'' listener0))))
       = []
   \<and> json_Unmarshal_int ex_env [] = Inl (ErrorString ''unexpected end of JSON input'')
   \<and> handleRequest ex_env ''{"id":0,"method":"$/cancelRequest"}'' listener0
       = (None, listener0\<lparr>out := replicate 1024 (CHR 0x00)
           @ ''{"id":0,"error":{"code":-32602,"message":"cannot read params: unexpected end of JSON input"}}''
           @ [CHR 0x0A]\<rparr>)\<close>
  using notification_dispatch [of ex_env \<open>''{"id":0,"method":"$/cancelRequest"}''\<close>
          "\<lparr>req_ID = 0, req_Method = ''$/cancelRequest'', req_Params = []\<rparr>" listener0 1 0
          "ErrorString ''unexpected end of JSON input''"
          \<open>\<lparr>rsp_ID = 0, rsp_Result = None, rsp_Error = Some \<lparr>Code = - 32602,
              Message = ''cannot read params: unexpected end of JSON input'', Data = None\<rparr>\<rparr>\<close>
          \<open>''{"id":0,"error":{"code":-32602,"message":"cannot read params: unexpected end of JSON input"}}''\<close>]
        notification_dispatch [of ex_env \<open>''{"id":0,"method":"hello"}''\<close>
          "\<lparr>req_ID = 0, req_Method = ''hello'', req_Params = []\<rparr>" listener0 1 0
          "ErrorString ''unexpected end of JSON input''"
          \<open>\<lparr>rsp_ID = 0, rsp_Result = None, rsp_Error = Some \<lparr>Code = - 32601,
              Message = ''unsupported notification '' @ ex_Quote ''hello'', Data = None\<rparr>\<rparr>\<close>
          \<open>''{"id":0,"error":{"code":-32601,"message":"unsupported notification ''
             @ [CHR 0x5C, CHR 0x22] @ ''hello'' @ [CHR 0x5C, CHR 0x22] @ ''"}}''\<close>]
        notification_dispatch [of ex_env \<open>''{"id":0,"method":"$/cancelRequest","params":0}''\<close>
          "\<lparr>req_ID = 0, req_Method = ''$/cancelRequest'', req_Params = ''0''\<rparr>" listener0 1 0
          "ErrorString ''unexpected end of JSON input''"
          \<open>\<lparr>rsp_ID = 0, rsp_Result = None, rsp_Error = Some \<lparr>Code = - 32602,
              Message = ''missing request ID'', Data = None\<rparr>\<rparr>\<close>
          \<open>''{"id":0,"error":{"code":-32602,"message":"missing request ID"}}''\<close>]
        notification_dispatch [of ex_env \<open>''{"id":0,"method":"$/cancelRequest","params":1}''\<close>
          "\<lparr>req_ID = 0, req_Method = ''$/cancelRequest'', req_Params = ''1''\<rparr>"
          \<open>snd (handleRequest ex_env ''{"id":1,"method":"ping","params":null}'' listener0)\<close> 1 0
          "ErrorString ''unexpected end of JSON input''"
          \<open>\<lparr>rsp_ID = 0, rsp_Result = None, rsp_Error = Some \<lparr>Code = - 32602,
              Message = ''missing request ID'', Data = None\<rparr>\<rparr>\<close>
          \<open>''{"id":0,"error":{"code":-32602,"message":"missing request ID"}}''\<close>]
  by (simp add: ex_defs rc_defs listener_defs)

end
